theory Spec2Isabelle
  imports Complex_Main
begin

section \<open>JavaScript values shared by the components\<close>

text \<open>
  A JavaScript string is a sequence of UTF-16 code units: \<open>length\<close>, \<open>substring\<close> and
  \<open>includes\<close> all count code units. A literal of the source that is plain ASCII is written
  \<open>str ''...''\<close>; a literal with other characters is spelled out as its code units.

  Numbers are modelled without rounding: share quantities are integers, prices and the
  derived money amounts are reals.
\<close>

type_synonym jsstring = "nat list"

definition str :: "string \<Rightarrow> jsstring" where
  "str s = map of_char s"

text \<open>\<open>String.prototype.startsWith\<close> and \<open>String.prototype.includes\<close>.\<close>

fun startsWith :: "jsstring \<Rightarrow> jsstring \<Rightarrow> bool" where
  "startsWith s [] = True"
| "startsWith [] (c # cs) = False"
| "startsWith (x # xs) (c # cs) = (x = c \<and> startsWith xs cs)"

fun includes_str :: "jsstring \<Rightarrow> jsstring \<Rightarrow> bool" where
  "includes_str [] pat = (pat = [])"
| "includes_str (x # xs) pat = (startsWith (x # xs) pat \<or> includes_str xs pat)"

text \<open>\<open>Math.round\<close>: the nearest integer, a tie going towards plus infinity.\<close>

definition Math_round :: "real \<Rightarrow> int" where
  "Math_round x = \<lfloor>x + 1 / 2\<rfloor>"

text \<open>
  How a handler ended. The source reports a failure to the user and returns; the branch
  taken is the outcome: a pre-flight check that returns before any request is a
  \<open>ValidationError\<close>, a \<open>catch\<close> block around a request is a \<open>RemoteError\<close>.
\<close>

datatype outcome = Succeeded | ValidationError jsstring | RemoteError jsstring

text \<open>An exception that leaves a handler uncaught.\<close>

datatype js_error = TypeError


section \<open>Trading session predicate\<close>

text \<open>
  \<open>isMarketOpen\<close> reads \<open>new Date()\<close> and looks at \<open>getDay()\<close> (0 is Sunday, 6 is
  Saturday), \<open>getHours()\<close> and \<open>getMinutes()\<close>. The clock reading is the argument here.
  The portfolio component and the dashboard component each carry a copy of the function;
  the two compute the same expression.
\<close>

record date =
  getDay :: nat
  getHours :: nat
  getMinutes :: nat

definition isMarketOpen :: "date \<Rightarrow> bool" where
  "isMarketOpen now =
     (let day = getDay now in
      if day = 0 \<or> day = 6 then False
      else
        let time = getHours now * 100 + getMinutes now in
        (time \<ge> 930 \<and> time \<le> 1130) \<or> (time \<ge> 1300 \<and> time \<le> 1500))"


section \<open>Portfolio manager\<close>

subsection \<open>Data\<close>

text \<open>
  The entry form holds the four static fields. A position has the same four fields, an
  optional server id and the four derived fields, each of which may be absent
  (\<open>undefined\<close>).
\<close>

record form =
  ts_code :: jsstring
  name :: jsstring
  quantity :: int
  cost_price :: real

record position = form +
  pid :: "nat option"
  current_price :: "real option"
  profit :: "real option"
  profit_pct :: "real option"
  weight :: "real option"

text \<open>
  The write requests of the backend variant: \<open>PUT /api/portfolio/<id>\<close> and
  \<open>POST /api/portfolio\<close>, each with the four static fields as its body.
\<close>

datatype write_request = PutPosition nat form | PostPosition form

text \<open>
  The component state: the portfolio (\<open>total_capital\<close>, \<open>positions\<close>), the edit cursor,
  the busy flag, the form, the texts passed to \<open>alert()\<close> so far and the write requests
  handed to \<open>fetch()\<close> so far. Output to the console is not part of the state.
\<close>

record manager =
  total_capital :: real
  positions :: "position list"
  isEditing :: bool
  editingIndex :: "nat option"
  isLoadingQuotes :: bool
  formData :: form
  alerts :: "jsstring list"
  outbox :: "write_request list"

text \<open>The alert texts of \<open>savePosition\<close>.\<close>

definition alert_noCode :: jsstring where
  "alert_noCode = [35831, 36755, 20837, 32929, 31080, 20195, 30721]"

definition alert_badQuantity :: jsstring where
  "alert_badQuantity =
     [25345, 20179, 25968, 37327, 24517, 39035, 26159, 49, 48, 48,
      30340, 27491, 25972, 25968, 20493]"

definition alert_badCost :: jsstring where
  "alert_badCost = [35831, 36755, 20837, 26377, 25928, 30340, 25104, 26412, 20215]"

definition alert_saveFailed :: jsstring where
  "alert_saveFailed = [20445, 23384, 22833, 36133]"

text \<open>The state the component starts in.\<close>

definition initialManager :: manager where
  "initialManager =
     \<lparr>total_capital = 100000, positions = [], isEditing = False, editingIndex = None,
      isLoadingQuotes = False,
      formData = \<lparr>ts_code = [], name = [], quantity = 100, cost_price = 0\<rparr>,
      alerts = [], outbox = []\<rparr>"

subsection \<open>Quantity controls\<close>

definition adjustQuantity :: "int \<Rightarrow> manager \<Rightarrow> manager" where
  "adjustQuantity delta s =
     (let newQty = quantity (formData s) + delta in
      if newQty \<ge> 100 then s\<lparr>formData := (formData s)\<lparr>quantity := newQty\<rparr>\<rparr> else s)"

definition validateQuantity :: "manager \<Rightarrow> manager" where
  "validateQuantity s =
     (let q = quantity (formData s) in
      if q < 100 then s\<lparr>formData := (formData s)\<lparr>quantity := 100\<rparr>\<rparr>
      else if q mod 100 \<noteq> 0
        then s\<lparr>formData := (formData s)\<lparr>quantity := Math_round (of_int q / 100) * 100\<rparr>\<rparr>
      else s)"

subsection \<open>Weights and quotes\<close>

text \<open>The body of the loop of \<open>updateWeights\<close>, for one position.\<close>

definition weighted :: "real \<Rightarrow> position \<Rightarrow> position" where
  "weighted total_cap pos =
     (let v = of_int (quantity pos) * cost_price pos in
      pos\<lparr>weight := Some (if total_cap > 0 then (v / total_cap) * 100 else 0)\<rparr>)"

definition updateWeights :: "manager \<Rightarrow> manager" where
  "updateWeights s =
     (let total = total_capital s in
      s\<lparr>positions := map (weighted total) (positions s)\<rparr>)"

text \<open>
  What one \<open>GET /api/stock/quote\<close> gives the loop. \<open>QuoteThrows\<close>: \<open>fetch()\<close> or
  \<open>response.json()\<close> rejected, or reading the body threw. \<open>QuoteNotOk\<close>: \<open>response.ok\<close>
  is false. \<open>QuoteBody success d\<close>: \<open>response.ok\<close> holds, \<open>success\<close> is the truth value
  of \<open>data.success\<close> and \<open>d\<close> is \<open>data.data\<close> (\<open>None\<close> when it is falsy). In the quote,
  a field is \<open>None\<close> when it is missing or \<open>null\<close>.
\<close>

record quote =
  price :: "real option"
  quote_name :: "jsstring option"

datatype quote_reply = QuoteThrows | QuoteNotOk | QuoteBody bool "quote option"

text \<open>
  The body of the loop for one position. \<open>a || b\<close> takes \<open>b\<close> when \<open>a\<close> is absent, zero
  or the empty string.
\<close>

fun applyQuote :: "quote_reply \<Rightarrow> position \<Rightarrow> position" where
  "applyQuote (QuoteBody True (Some q)) pos =
     (let pos1 = pos\<lparr>current_price := price q\<rparr>;
          pos2 = pos1\<lparr>name :=
                   (case quote_name q of
                      Some n \<Rightarrow> if n \<noteq> [] then n else name pos1
                    | None \<Rightarrow> name pos1)\<rparr>;
          currentPrice =
            (case current_price pos2 of
               Some p \<Rightarrow> if p \<noteq> 0 then p else cost_price pos2
             | None \<Rightarrow> cost_price pos2);
          pos3 = pos2\<lparr>profit :=
                   Some ((currentPrice - cost_price pos2) * of_int (quantity pos2))\<rparr>
      in pos3\<lparr>profit_pct :=
               Some (if cost_price pos3 > 0
                     then ((currentPrice / cost_price pos3) - 1) * 100
                     else 0)\<rparr>)"
| "applyQuote r pos = pos"

text \<open>
  The quote service as the loop sees it: the reply to the \<open>i\<close>-th request of a refresh,
  which asks for the code \<open>ts_code\<close> of the \<open>i\<close>-th position.
\<close>

type_synonym quote_service = "nat \<Rightarrow> jsstring \<Rightarrow> quote_reply"

fun quoteLoop :: "quote_service \<Rightarrow> nat \<Rightarrow> position list \<Rightarrow> position list" where
  "quoteLoop fetch i [] = []"
| "quoteLoop fetch i (pos # rest) =
     applyQuote (fetch i (ts_code pos)) pos # quoteLoop fetch (Suc i) rest"

definition refreshQuotes :: "quote_service \<Rightarrow> manager \<Rightarrow> manager" where
  "refreshQuotes fetch s =
     (if positions s = [] then s
      else
        let s1 = s\<lparr>isLoadingQuotes := True\<rparr>;
            s2 = s1\<lparr>positions := quoteLoop fetch 0 (positions s1)\<rparr>;
            s3 = updateWeights s2
        in s3\<lparr>isLoadingQuotes := False\<rparr>)"

subsection \<open>Editing the ledger\<close>

definition resetForm :: "manager \<Rightarrow> manager" where
  "resetForm s =
     s\<lparr>formData := \<lparr>ts_code = [], name = [], quantity = 100, cost_price = 0\<rparr>,
       editingIndex := None,
       isEditing := False\<rparr>"

definition editPosition :: "nat \<Rightarrow> manager \<Rightarrow> manager" where
  "editPosition index s =
     (if index \<ge> length (positions s) then s
      else
        let pos = positions s ! index in
        s\<lparr>formData := \<lparr>ts_code = ts_code pos, name = name pos,
                        quantity = quantity pos, cost_price = cost_price pos\<rparr>,
          editingIndex := Some index,
          isEditing := True\<rparr>)"

text \<open>
  \<open>String.prototype.toUpperCase\<close> is a parameter \<open>up\<close> of the two save handlers. On
  ASCII text it is \<open>toUpperCase_ascii\<close>.
\<close>

definition toUpperCase_ascii :: "jsstring \<Rightarrow> jsstring" where
  "toUpperCase_ascii s = map (\<lambda>c. if 97 \<le> c \<and> c \<le> 122 then c - 32 else c) s"

text \<open>The object literal built from the form: no id and no derived field.\<close>

definition newPosition :: "(jsstring \<Rightarrow> jsstring) \<Rightarrow> form \<Rightarrow> position" where
  "newPosition up f =
     \<lparr>ts_code = up (ts_code f),
      name = (if name f \<noteq> [] then name f else ts_code f),
      quantity = quantity f,
      cost_price = cost_price f,
      pid = None, current_price = None, profit = None, profit_pct = None, weight = None\<rparr>"

text \<open>The three checks that open both save handlers; \<open>None\<close> when the form passes.\<close>

definition validateForm :: "form \<Rightarrow> jsstring option" where
  "validateForm f =
     (if ts_code f = [] then Some alert_noCode
      else if quantity f \<le> 0 \<or> quantity f mod 100 \<noteq> 0 then Some alert_badQuantity
      else if cost_price f \<le> 0 then Some alert_badCost
      else None)"

text \<open>
  The variant that keeps the ledger in the browser. \<open>positions[i] = position\<close> replaces
  the element inside the array and appends at \<open>i = length\<close>; beyond that it leaves holes,
  on which the loop of \<open>updateWeights\<close> dies with a \<open>TypeError\<close> nobody catches.
\<close>

definition savePosition_local ::
    "(jsstring \<Rightarrow> jsstring) \<Rightarrow> manager \<Rightarrow> js_error + outcome \<times> manager" where
  "savePosition_local up s =
     (case validateForm (formData s) of
        Some msg \<Rightarrow> Inr (ValidationError msg, s\<lparr>alerts := alerts s @ [msg]\<rparr>)
      | None \<Rightarrow>
          let position = newPosition up (formData s) in
          (case editingIndex s of
             Some i \<Rightarrow>
               if i < length (positions s)
                 then Inr (Succeeded,
                       updateWeights (resetForm (s\<lparr>positions := (positions s)[i := position]\<rparr>)))
               else if i = length (positions s)
                 then Inr (Succeeded,
                       updateWeights (resetForm (s\<lparr>positions := positions s @ [position]\<rparr>)))
               else Inl TypeError
           | None \<Rightarrow>
               Inr (Succeeded,
                 updateWeights (resetForm (s\<lparr>positions := positions s @ [position]\<rparr>)))))"

text \<open>
  The variant that keeps the ledger on the server. \<open>GET /api/portfolio\<close> replies with an
  array of positions, with something else, or not at all; a new array replaces the ledger
  and its quotes are refreshed.
\<close>

datatype list_reply = ListThrows | ListNotArray | ListArray "position list"

definition fetchPositions :: "list_reply \<Rightarrow> quote_service \<Rightarrow> manager \<Rightarrow> manager" where
  "fetchPositions r fetch s =
     (case r of
        ListArray data \<Rightarrow> refreshQuotes fetch (s\<lparr>positions := data\<rparr>)
      | _ \<Rightarrow> s)"

text \<open>
  \<open>written\<close> tells whether the \<open>fetch()\<close> of the write request resolved (its status is
  not looked at). In edit mode the request is sent only for a position with a truthy id;
  a cursor past the end of the list makes \<open>pos.id\<close> throw inside the \<open>try\<close>.
\<close>

definition savePosition ::
    "(jsstring \<Rightarrow> jsstring) \<Rightarrow> bool \<Rightarrow> list_reply \<Rightarrow> quote_service \<Rightarrow> manager
       \<Rightarrow> outcome \<times> manager" where
  "savePosition up written r fetch s =
     (case validateForm (formData s) of
        Some msg \<Rightarrow> (ValidationError msg, s\<lparr>alerts := alerts s @ [msg]\<rparr>)
      | None \<Rightarrow>
          let f = formData s;
              positionData = \<lparr>ts_code = up (ts_code f),
                              name = (if name f \<noteq> [] then name f else ts_code f),
                              quantity = quantity f, cost_price = cost_price f\<rparr>;
              failed = (\<lambda>t. (RemoteError alert_saveFailed, t\<lparr>alerts := alerts t @ [alert_saveFailed]\<rparr>));
              reload = (\<lambda>t. (Succeeded, resetForm (fetchPositions r fetch t)))
          in
          (case editingIndex s of
             Some i \<Rightarrow>
               if i \<ge> length (positions s) then failed s
               else
                 (case pid (positions s ! i) of
                    Some n \<Rightarrow>
                      if n \<noteq> 0 then
                        (let s1 = s\<lparr>outbox := outbox s @ [PutPosition n positionData]\<rparr>
                         in if written then reload s1 else failed s1)
                      else reload s
                  | None \<Rightarrow> reload s)
           | None \<Rightarrow>
               (let s1 = s\<lparr>outbox := outbox s @ [PostPosition positionData]\<rparr>
                in if written then reload s1 else failed s1)))"


subsection \<open>A sample ledger\<close>

text \<open>
  Two held positions, the first with derived fields from an earlier refresh, and a quote
  service whose first reply is an exception and whose other replies are quotes at 120.
\<close>

definition heldPositions :: "position list" where
  "heldPositions =
     [\<lparr>ts_code = str ''000001.SZ'', name = str ''PAB'', quantity = 100, cost_price = 10,
       pid = None, current_price = Some 11, profit = Some 100, profit_pct = Some 10,
       weight = Some 1\<rparr>,
      \<lparr>ts_code = str ''600519.SH'', name = str ''600519.SH'', quantity = 200, cost_price = 100,
       pid = None, current_price = None, profit = None, profit_pct = None,
       weight = None\<rparr>]"

text \<open>The same ledger with the first position opened in the form and its quantity doubled.\<close>

definition editingFirst :: manager where
  "editingFirst =
     initialManager
       \<lparr>positions := heldPositions, isEditing := True, editingIndex := Some 0,
        formData := \<lparr>ts_code = str ''000001.sz'', name = str ''PAB'',
                      quantity = 200, cost_price = 10\<rparr>\<rparr>"

definition firstQuoteFails :: quote_service where
  "firstQuoteFails i code =
     (if i = 0 then QuoteThrows
      else QuoteBody True (Some \<lparr>price = Some 120, quote_name = Some (str ''Moutai'')\<rparr>))"


section \<open>Analysis flow\<close>

subsection \<open>Data\<close>

record Sector =
  sector_name :: jsstring
  change_pct :: real
  money_flow :: real
  hot_level :: jsstring
  signal :: jsstring
  reason :: jsstring

record SectorAnalysis =
  market_summary :: jsstring
  market_direction :: jsstring
  sectors :: "Sector list"
  risk_warning :: jsstring
  trade_date :: jsstring

record StockRec =
  rank :: real
  rec_ts_code :: jsstring
  rec_name :: jsstring
  rec_sector :: jsstring
  rec_signal :: jsstring
  score :: real
  rec_current_price :: real
  target_price :: real
  stop_loss_price :: real
  position_pct :: real
  hold_period :: jsstring
  entry_timing :: jsstring
  reasons :: "jsstring list"
  risk_factors :: "jsstring list"

record StockRecommendations =
  analysis_summary :: jsstring
  recommendations :: "StockRec list"
  recs_risk_warning :: jsstring
  recs_trade_date :: jsstring
  selected_sectors :: "jsstring list option"

datatype risk = aggressive | balanced | conservative

text \<open>
  The two requests of the flow: \<open>GET /api/analyze/sectors\<close>, and
  \<open>POST /api/analyze/stocks\<close> with the selected names and the risk preference as body.
\<close>

datatype request = GetSectors | PostStocks "jsstring list" risk

text \<open>
  What a request gives its handler. \<open>Throws m\<close>: \<open>fetch()\<close> or \<open>response.json()\<close>
  rejected, or reading the body threw, with \<open>error.message = m\<close> (empty when there is
  none). \<open>NotOk d\<close>: \<open>response.ok\<close> is false and \<open>d\<close> is the text of \<open>data.detail\<close>,
  \<open>None\<close> when \<open>data.detail\<close> is falsy. \<open>Ok data\<close>: \<open>response.ok\<close> holds and the body
  parsed to \<open>data\<close>, which the handler stores as it is.
\<close>

datatype 'a reply = Throws jsstring | NotOk "jsstring option" | Ok 'a

text \<open>
  The component state. \<open>selectedSectors\<close> is a JavaScript \<open>Set\<close>: its elements in
  insertion order, each once. \<open>sent\<close> lists the requests handed to \<open>fetch()\<close> so far.
\<close>

record flow =
  currentStep :: nat
  isLoading :: bool
  errorMessage :: "jsstring option"
  sectorAnalysis :: "SectorAnalysis option"
  selectedSectors :: "jsstring list"
  stockRecommendations :: "StockRecommendations option"
  riskPreference :: risk
  sent :: "request list"

text \<open>The state after mounting, with the risk preference found in the browser store.\<close>

definition initialFlow :: "risk \<Rightarrow> flow" where
  "initialFlow saved =
     \<lparr>currentStep = 1, isLoading = False, errorMessage = None, sectorAnalysis = None,
      selectedSectors = [], stockRecommendations = None, riskPreference = saved, sent = []\<rparr>"

text \<open>The message texts of the flow.\<close>

definition msg_selectAtLeastOne :: jsstring where
  "msg_selectAtLeastOne = [35831, 33267, 23569, 36873, 25321, 19968, 20010, 26495, 22359]"

definition msg_sectorFailed :: jsstring where
  "msg_sectorFailed = [26495, 22359, 20998, 26512, 22833, 36133]"

definition msg_stockFailed :: jsstring where
  "msg_stockFailed = [32929, 31080, 25512, 33616, 22833, 36133]"

definition msg_requestFailed :: jsstring where
  "msg_requestFailed = [35831, 27714, 22833, 36133]"

subsection \<open>Handlers\<close>

definition setRiskPreference :: "risk \<Rightarrow> flow \<Rightarrow> flow" where
  "setRiskPreference v s = s\<lparr>riskPreference := v\<rparr>"

definition hasSelectedSectors :: "flow \<Rightarrow> bool" where
  "hasSelectedSectors s = (length (selectedSectors s) > 0)"

definition toggleSector :: "jsstring \<Rightarrow> flow \<Rightarrow> flow" where
  "toggleSector nm s =
     (if nm \<in> set (selectedSectors s)
      then s\<lparr>selectedSectors := removeAll nm (selectedSectors s)\<rparr>
      else s\<lparr>selectedSectors := selectedSectors s @ [nm]\<rparr>)"

text \<open>
  The \<open>catch\<close> and \<open>finally\<close> blocks shared by the two request handlers:
  \<open>errorMessage = error.message || <request failed>\<close>, then \<open>isLoading = false\<close>.
\<close>

definition caught :: "jsstring \<Rightarrow> flow \<Rightarrow> outcome \<times> flow" where
  "caught m s =
     (let shown = (if m \<noteq> [] then m else msg_requestFailed) in
      (RemoteError shown, s\<lparr>errorMessage := Some shown, isLoading := False\<rparr>))"

definition analyzeSectors :: "SectorAnalysis reply \<Rightarrow> flow \<Rightarrow> outcome \<times> flow" where
  "analyzeSectors r s =
     (let s1 = s\<lparr>isLoading := True, errorMessage := None\<rparr>;
          s2 = s1\<lparr>sent := sent s1 @ [GetSectors]\<rparr>
      in case r of
           Throws m \<Rightarrow> caught m s2
         | NotOk detail \<Rightarrow>
             caught (case detail of Some d \<Rightarrow> d | None \<Rightarrow> msg_sectorFailed) s2
         | Ok data \<Rightarrow>
             (Succeeded, s2\<lparr>sectorAnalysis := Some data, currentStep := 2, isLoading := False\<rparr>))"

definition recommendStocks :: "StockRecommendations reply \<Rightarrow> flow \<Rightarrow> outcome \<times> flow" where
  "recommendStocks r s =
     (if \<not> hasSelectedSectors s
      then (ValidationError msg_selectAtLeastOne, s\<lparr>errorMessage := Some msg_selectAtLeastOne\<rparr>)
      else
        let s1 = s\<lparr>isLoading := True, errorMessage := None\<rparr>;
            s2 = s1\<lparr>sent := sent s1 @ [PostStocks (selectedSectors s1) (riskPreference s1)]\<rparr>
        in case r of
             Throws m \<Rightarrow> caught m s2
           | NotOk detail \<Rightarrow>
               caught (case detail of Some d \<Rightarrow> d | None \<Rightarrow> msg_stockFailed) s2
           | Ok data \<Rightarrow>
               (Succeeded,
                s2\<lparr>stockRecommendations := Some data, currentStep := 3, isLoading := False\<rparr>))"

definition resetFlow :: "flow \<Rightarrow> flow" where
  "resetFlow s =
     s\<lparr>currentStep := 1, sectorAnalysis := None, selectedSectors := [],
       stockRecommendations := None, errorMessage := None\<rparr>"

definition goBack :: "flow \<Rightarrow> flow" where
  "goBack s =
     (if currentStep s = 3 then s\<lparr>currentStep := 2, stockRecommendations := None\<rparr>
      else if currentStep s = 2
        then s\<lparr>currentStep := 1, sectorAnalysis := None, selectedSectors := []\<rparr>
      else s)"

subsection \<open>The two halves of a request handler\<close>

text \<open>
  A request handler is an \<open>async\<close> function: it runs up to \<open>await fetch(...)\<close>, returns
  to the page, and resumes when the reply is there; other handlers can run in between.
  \<open>_begin\<close> is the part before the \<open>await\<close>, \<open>_settle\<close> the part from the reply on.
  (Between \<open>await fetch\<close> and \<open>await response.json()\<close> the handler writes nothing.)
  \<open>analyzeSectors\<close> and \<open>recommendStocks\<close> above are the two halves run back to back.
\<close>

definition analyzeSectors_begin :: "flow \<Rightarrow> flow" where
  "analyzeSectors_begin s =
     (let s1 = s\<lparr>isLoading := True, errorMessage := None\<rparr>
      in s1\<lparr>sent := sent s1 @ [GetSectors]\<rparr>)"

definition analyzeSectors_settle :: "SectorAnalysis reply \<Rightarrow> flow \<Rightarrow> outcome \<times> flow" where
  "analyzeSectors_settle r s =
     (case r of
        Throws m \<Rightarrow> caught m s
      | NotOk detail \<Rightarrow> caught (case detail of Some d \<Rightarrow> d | None \<Rightarrow> msg_sectorFailed) s
      | Ok data \<Rightarrow>
          (Succeeded, s\<lparr>sectorAnalysis := Some data, currentStep := 2, isLoading := False\<rparr>))"

text \<open>\<open>recommendStocks_begin\<close> is the part after the check for an empty selection.\<close>

definition recommendStocks_begin :: "flow \<Rightarrow> flow" where
  "recommendStocks_begin s =
     (let s1 = s\<lparr>isLoading := True, errorMessage := None\<rparr>
      in s1\<lparr>sent := sent s1 @ [PostStocks (selectedSectors s1) (riskPreference s1)]\<rparr>)"

definition recommendStocks_settle ::
    "StockRecommendations reply \<Rightarrow> flow \<Rightarrow> outcome \<times> flow" where
  "recommendStocks_settle r s =
     (case r of
        Throws m \<Rightarrow> caught m s
      | NotOk detail \<Rightarrow> caught (case detail of Some d \<Rightarrow> d | None \<Rightarrow> msg_stockFailed) s
      | Ok data \<Rightarrow>
          (Succeeded,
           s\<lparr>stockRecommendations := Some data, currentStep := 3, isLoading := False\<rparr>))"

subsection \<open>What the template lets the user do\<close>

text \<open>
  The handlers are private to the component; the template decides when each can run.
  The pane of step 1 shows for \<open>currentStep === 1\<close>, with the risk buttons and the
  analyse button (disabled while loading). The pane of step 2 shows for
  \<open>currentStep === 2 && sectorAnalysis\<close>, with one card per sector of the current
  analysis (a click toggles that sector's name), the back button and the recommend button
  (disabled while loading or with nothing selected; so the handler's own check for an
  empty selection passes). The pane of step 3 shows for
  \<open>currentStep === 3 && stockRecommendations\<close>, with the back and the restart buttons.
  The error banner shows for a non-empty \<open>errorMessage\<close>, with a button that clears it.
  Neither the cards nor the back and restart buttons are disabled while a request is
  pending.

  A session is the component state together with the requests still in flight. A click
  on the analyse or the recommend button runs the first half of the handler and leaves
  its request pending; the reply to a pending request comes as an event of its own, at
  any later moment, and runs the second half on the state of that moment.
\<close>

datatype call = ScanCall | RecommendCall

type_synonym session = "flow \<times> call list"

datatype event =
    ClickRisk risk
  | ClickAnalyze
  | ClickSector nat
  | ClickBack
  | ClickRecommend
  | ClickReset
  | ClickCloseError
  | ScanSettles "SectorAnalysis reply"
  | RecommendSettles "StockRecommendations reply"

definition showsStep2 :: "flow \<Rightarrow> bool" where
  "showsStep2 s = (currentStep s = 2 \<and> sectorAnalysis s \<noteq> None)"

definition showsStep3 :: "flow \<Rightarrow> bool" where
  "showsStep3 s = (currentStep s = 3 \<and> stockRecommendations s \<noteq> None)"

fun fire :: "event \<Rightarrow> session \<Rightarrow> session option" where
  "fire (ClickRisk v) (s, p) =
     (if currentStep s = 1 then Some (setRiskPreference v s, p) else None)"
| "fire ClickAnalyze (s, p) =
     (if currentStep s = 1 \<and> \<not> isLoading s
      then Some (analyzeSectors_begin s, p @ [ScanCall]) else None)"
| "fire (ClickSector i) (s, p) =
     (case sectorAnalysis s of
        None \<Rightarrow> None
      | Some a \<Rightarrow>
          if currentStep s = 2 \<and> i < length (sectors a)
          then Some (toggleSector (sector_name (sectors a ! i)) s, p)
          else None)"
| "fire ClickBack (s, p) =
     (if showsStep2 s \<or> showsStep3 s then Some (goBack s, p) else None)"
| "fire ClickRecommend (s, p) =
     (if showsStep2 s \<and> hasSelectedSectors s \<and> \<not> isLoading s
      then Some (recommendStocks_begin s, p @ [RecommendCall]) else None)"
| "fire ClickReset (s, p) =
     (if showsStep3 s then Some (resetFlow s, p) else None)"
| "fire ClickCloseError (s, p) =
     (case errorMessage s of
        None \<Rightarrow> None
      | Some m \<Rightarrow> if m \<noteq> [] then Some (s\<lparr>errorMessage := None\<rparr>, p) else None)"
| "fire (ScanSettles r) (s, p) =
     (if ScanCall \<in> set p
      then Some (snd (analyzeSectors_settle r s), remove1 ScanCall p) else None)"
| "fire (RecommendSettles r) (s, p) =
     (if RecommendCall \<in> set p
      then Some (snd (recommendStocks_settle r s), remove1 RecommendCall p) else None)"

text \<open>
  A session: the events in order; \<open>None\<close> when one of them is not on offer. It starts
  from the mounted component with nothing in flight.
\<close>

fun run :: "event list \<Rightarrow> session \<Rightarrow> session option" where
  "run [] c = Some c"
| "run (e # es) c = (case fire e c of None \<Rightarrow> None | Some c' \<Rightarrow> run es c')"

text \<open>The names on the sector cards: those of the current analysis, if there is one.\<close>

definition sectorNames :: "flow \<Rightarrow> jsstring set" where
  "sectorNames s =
     (case sectorAnalysis s of None \<Rightarrow> {} | Some a \<Rightarrow> set (map sector_name (sectors a)))"

subsection \<open>A sample scan\<close>

definition sampleAnalysis :: SectorAnalysis where
  "sampleAnalysis =
     \<lparr>market_summary = str ''summary'', market_direction = str ''up'',
      sectors = [\<lparr>sector_name = str ''Semiconductors'', change_pct = 52 / 10,
                  money_flow = 0, hot_level = str ''high'', signal = str ''buy'',
                  reason = str ''flow''\<rparr>],
      risk_warning = str ''risk'', trade_date = str ''20240102''\<rparr>"

definition sampleRecommendations :: StockRecommendations where
  "sampleRecommendations =
     \<lparr>analysis_summary = str ''summary'', recommendations = [],
      recs_risk_warning = str ''risk'', recs_trade_date = str ''20240102'',
      selected_sectors = Some [str ''Semiconductors'']\<rparr>"

text \<open>The state after a first successful scan that returned the sample.\<close>

definition scanned :: flow where
  "scanned = snd (analyzeSectors (Ok sampleAnalysis) (initialFlow balanced))"


subsection \<open>The invariant of a session\<close>

text \<open>
  Every selected name is on a sector card; nothing is selected at step 1; while a request
  is in flight the busy flag is on; a scan is in flight at step 1 only; at most one
  request is in flight.
\<close>

definition flowInv :: "session \<Rightarrow> bool" where
  "flowInv c =
     (case c of (s, p) \<Rightarrow>
        set (selectedSectors s) \<subseteq> sectorNames s
        \<and> (currentStep s = 1 \<longrightarrow> selectedSectors s = [])
        \<and> (p \<noteq> [] \<longrightarrow> isLoading s)
        \<and> (ScanCall \<in> set p \<longrightarrow> currentStep s = 1)
        \<and> length p \<le> 1)"


section \<open>Error classifier\<close>

text \<open>
  \<open>parseApiError\<close> takes \<open>data: any\<close>, the parsed body of a reply. A JSON value, or
  \<open>undefined\<close>; an object is the list of its own properties, each key once.
\<close>

datatype json =
    JUndefined
  | JNull
  | JBool bool
  | JNum real
  | JStr jsstring
  | JArr "json list"
  | JObj "(jsstring \<times> json) list"

text \<open>
  \<open>data?.key\<close> for the keys the classifier reads: the property of an object,
  \<open>undefined\<close> when it is missing and on every value that is not an object.
\<close>

definition getProperty :: "json \<Rightarrow> jsstring \<Rightarrow> json" where
  "getProperty data key =
     (case data of
        JObj props \<Rightarrow> (case map_of props key of Some v \<Rightarrow> v | None \<Rightarrow> JUndefined)
      | _ \<Rightarrow> JUndefined)"

fun truthy :: "json \<Rightarrow> bool" where
  "truthy JUndefined = False"
| "truthy JNull = False"
| "truthy (JBool b) = b"
| "truthy (JNum x) = (x \<noteq> 0)"
| "truthy (JStr t) = (t \<noteq> [])"
| "truthy (JArr xs) = True"
| "truthy (JObj props) = True"

record AlertText =
  title :: jsstring
  message :: jsstring
  details :: "jsstring option"

text \<open>The literal texts of the classifier.\<close>

definition quota_title :: jsstring where
  "quota_title = [55357, 57003, 32, 65, 80, 73, 32, 37197, 39069, 24050, 29992, 23613]"

definition quota_message :: jsstring where
  "quota_message =
     [71, 101, 109, 105, 110, 105, 32, 65, 80, 73, 32, 20813, 36153, 37197, 39069, 24050,
      36798, 21040, 38480, 21046, 12290]"

definition quota_details :: jsstring where
  "quota_details =
     [35299, 20915, 26041, 26696, 65306, 10, 49, 46, 32, 31561, 24453, 37197, 39069, 37325,
      32622, 65288, 36890, 24120, 27599, 26085, 37325, 32622, 65289, 10, 50, 46, 32, 21319,
      32423, 21040, 32, 71, 111, 111, 103, 108, 101, 32, 67, 108, 111, 117, 100, 32, 20184,
      36153, 35745, 21010, 10, 51, 46, 32, 22312, 32, 46, 101, 110, 118, 32, 20013, 37197,
      32622, 32, 79, 112, 101, 110, 65, 73, 32, 65, 80, 73, 32, 75, 101, 121, 32, 24182,
      20999, 25442, 25552, 20379, 21830]"

definition permission_marker :: jsstring where
  "permission_marker = [27809, 26377, 25509, 21475, 35775, 38382, 26435, 38480]"

definition permission_title :: jsstring where
  "permission_title = [55357, 56594, 32, 25968, 25454, 28304, 26435, 38480, 19981, 36275]"

definition permission_message :: jsstring where
  "permission_message =
     [84, 117, 115, 104, 97, 114, 101, 32, 36134, 25143, 31215, 20998, 19981, 36275, 65292,
      26080, 27861, 35775, 38382, 27492, 25968, 25454, 25509, 21475, 12290]"

definition permission_details :: jsstring where
  "permission_details =
     [35299, 20915, 26041, 26696, 65306, 10, 49, 46, 32, 35775, 38382, 32, 116, 117, 115,
      104, 97, 114, 101, 46, 112, 114, 111, 32, 30331, 24405, 24744, 30340, 36134, 25143,
      10, 50, 46, 32, 36890, 36807, 23436, 25104, 20219, 21153, 31215, 32047, 31215, 20998,
      10, 51, 46, 32, 25110, 21319, 32423, 21040, 20184, 36153, 20250, 21592, 33719, 21462,
      26356, 22810, 26435, 38480]"

definition generic_title :: jsstring where
  "generic_title = [9888, 65039, 32, 35831, 27714, 22833, 36133]"

definition llm_quota_message :: jsstring where
  "llm_quota_message = [76, 76, 77, 32, 26381, 21153, 37197, 39069, 19981, 36275]"

definition unknown_title :: jsstring where
  "unknown_title = [10060, 32, 25805, 20316, 22833, 36133]"

text \<open>
  The guard of the first block, \<open>data?.detail && typeof data.detail === 'string'\<close>:
  the detail when it is a non-empty string.
\<close>

definition detailText :: "json \<Rightarrow> jsstring option" where
  "detailText data =
     (case getProperty data (str ''detail'') of
        JStr detail \<Rightarrow> if detail \<noteq> [] then Some detail else None
      | _ \<Rightarrow> None)"

text \<open>
  The classifier, the same in both dashboard files. In the second block \<open>content\<close> is
  used as a string without a check: on an array \<open>includes\<close> looks for an element and
  \<open>substring\<close> does not exist, on a number, \<open>true\<close> or an object \<open>includes\<close> does not
  exist, and the call throws a \<open>TypeError\<close>.
\<close>

definition parseApiError :: "json \<Rightarrow> jsstring \<Rightarrow> js_error + AlertText" where
  "parseApiError data defaultMessage =
     (case detailText data of
        Some detail \<Rightarrow>
          if includes_str detail (str ''429'') \<or> includes_str detail (str ''quota'')
             \<or> includes_str detail (str ''exceeded'')
          then Inr \<lparr>title = quota_title, message = quota_message,
                    details = Some quota_details\<rparr>
          else if includes_str detail permission_marker
                  \<or> includes_str detail (str ''tushare.pro'')
          then Inr \<lparr>title = permission_title, message = permission_message,
                    details = Some permission_details\<rparr>
          else Inr \<lparr>title = generic_title, message = take 200 detail,
                    details = (if length detail > 200 then Some detail else None)\<rparr>
      | None \<Rightarrow>
          let unknown = Inr \<lparr>title = unknown_title, message = defaultMessage, details = None\<rparr>
          in
          if getProperty data (str ''success'') = JBool False
             \<and> truthy (getProperty data (str ''content''))
          then
            (case getProperty data (str ''content'') of
               JStr content \<Rightarrow>
                 if includes_str content (str ''429'') \<or> includes_str content (str ''quota'')
                 then Inr \<lparr>title = quota_title, message = llm_quota_message,
                           details = Some (take 500 content)\<rparr>
                 else unknown
             | JArr items \<Rightarrow>
                 if JStr (str ''429'') \<in> set items \<or> JStr (str ''quota'') \<in> set items
                 then Inl TypeError
                 else unknown
             | _ \<Rightarrow> Inl TypeError)
          else unknown)"

text \<open>A reply whose detail carries a quota marker and a data-provider marker at once.\<close>

definition quotaReply :: json where
  "quotaReply = JObj [(str ''detail'', JStr (str ''Error 429 from tushare.pro''))]"


section \<open>Properties of the trading session predicate\<close>

lemma hhmm_morning:
  fixes h m :: nat
  assumes "m < 60"
  shows "(930 \<le> h * 100 + m \<and> h * 100 + m \<le> 1130)
           = (570 \<le> h * 60 + m \<and> h * 60 + m \<le> 690)"
proof -
  consider "h \<le> 8" | "h = 9" | "h = 10" | "h = 11" | "12 \<le> h" by linarith
  then show ?thesis using assms by cases auto
qed

lemma hhmm_afternoon:
  fixes h m :: nat
  assumes "m < 60"
  shows "(1300 \<le> h * 100 + m \<and> h * 100 + m \<le> 1500)
           = (780 \<le> h * 60 + m \<and> h * 60 + m \<le> 900)"
proof -
  consider "h \<le> 12" | "h = 13" | "h = 14" | "h = 15" | "16 \<le> h" by linarith
  then show ?thesis using assms by cases auto
qed

text \<open>
  C9. For a clock reading (minutes below 60), \<open>isMarketOpen\<close> depends on the reading
  alone, is false on Sunday (day 0) and Saturday (day 6), and on the other days is true
  exactly when the minute of the day lies in [09:30, 11:30] or in [13:00, 15:00], the
  four boundary minutes included.
\<close>

theorem isMarketOpen_sessions:
  assumes "getMinutes now < 60"
  shows "isMarketOpen now \<longleftrightarrow>
           getDay now \<noteq> 0 \<and> getDay now \<noteq> 6 \<and>
           (let t = getHours now * 60 + getMinutes now in
            (9 * 60 + 30 \<le> t \<and> t \<le> 11 * 60 + 30) \<or> (13 * 60 \<le> t \<and> t \<le> 15 * 60))"
  using hhmm_morning [OF assms, of "getHours now"]
        hhmm_afternoon [OF assms, of "getHours now"]
  unfolding isMarketOpen_def Let_def by auto

theorem isMarketOpen_sessions_witness:
  "isMarketOpen \<lparr>getDay = 1, getHours = 11, getMinutes = 30\<rparr>
   \<and> \<not> isMarketOpen \<lparr>getDay = 1, getHours = 11, getMinutes = 31\<rparr>
   \<and> isMarketOpen \<lparr>getDay = 5, getHours = 15, getMinutes = 0\<rparr>
   \<and> \<not> isMarketOpen \<lparr>getDay = 6, getHours = 10, getMinutes = 0\<rparr>"
  using isMarketOpen_sessions [of "\<lparr>getDay = 1, getHours = 11, getMinutes = 30\<rparr>"]
        isMarketOpen_sessions [of "\<lparr>getDay = 1, getHours = 11, getMinutes = 31\<rparr>"]
        isMarketOpen_sessions [of "\<lparr>getDay = 5, getHours = 15, getMinutes = 0\<rparr>"]
        isMarketOpen_sessions [of "\<lparr>getDay = 6, getHours = 10, getMinutes = 0\<rparr>"]
  by simp


section \<open>Properties of the quantity controls\<close>

lemma Math_round_hundredths:
  "Math_round (of_int q / 100) = (q + 50) div 100"
proof -
  have "(of_int q / 100 + 1 / 2 :: real) = of_int (q + 50) / of_int 100" by simp
  then have "Math_round (of_int q / 100) = \<lfloor>(of_int (q + 50) / of_int 100 :: real)\<rfloor>"
    by (simp only: Math_round_def)
  also have "\<dots> = (q + 50) div 100" by (rule floor_divide_of_int_eq)
  finally show ?thesis .
qed

lemma validateQuantity_value:
  "quantity (formData (validateQuantity s)) =
     (let q = quantity (formData s) in
      if q < 100 then 100 else if q mod 100 \<noteq> 0 then ((q + 50) div 100) * 100 else q)"
  by (simp add: validateQuantity_def Let_def Math_round_hundredths)

lemma nearest_hundred:
  fixes q :: int
  assumes "100 \<le> q"
  shows "100 \<le> (q + 50) div 100 * 100" and "q - 50 < (q + 50) div 100 * 100"
    and "(q + 50) div 100 * 100 \<le> q + 50"
proof -
  define d where "d = (q + 50) div 100"
  define r where "r = (q + 50) mod 100"
  have split: "q + 50 = d * 100 + r" unfolding d_def r_def by simp
  have r: "0 \<le> r" "r < 100" unfolding r_def by simp_all
  have "0 < d" using split r assms by (cases "0 < d") auto
  then have "1 \<le> d" by simp
  then show "100 \<le> (q + 50) div 100 * 100" unfolding d_def [symmetric] by simp
  show "q - 50 < (q + 50) div 100 * 100" unfolding d_def [symmetric] using split r by linarith
  show "(q + 50) div 100 * 100 \<le> q + 50" unfolding d_def [symmetric] using split r by linarith
qed

lemma validateForm_nonpositive:
  "quantity f \<le> 0 \<Longrightarrow> \<exists>msg. validateForm f = Some msg"
  by (simp add: validateForm_def)

text \<open>
  C5, as stated, fails: the quantity control turns 250 into 300, not into 200.
\<close>

theorem validateQuantity_250_counterexample:
  "quantity (formData (validateQuantity
      (initialManager\<lparr>formData := (formData initialManager)\<lparr>quantity := 250\<rparr>\<rparr>))) = 300"
  by (simp add: validateQuantity_def initialManager_def Math_round_def)

text \<open>
  C5, amended. \<open>validateQuantity\<close> snaps the quantity \<open>q\<close> of the form to the nearest
  multiple of 100, a tie going up, with a floor of 100: the result \<open>q'\<close> is a multiple of
  100, at least 100, equal to 100 for every \<open>q\<close> below 100, and within \<open>q - 50 < q' \<le> q + 50\<close>
  otherwise. A quantity of zero or less submitted to either save handler is rejected with
  a \<open>ValidationError\<close>: one alert, and nothing else in the state changes.
\<close>

theorem quantity_snapped_or_rejected:
  "(let q = quantity (formData s); q' = quantity (formData (validateQuantity s)) in
      100 \<le> q' \<and> q' mod 100 = 0
      \<and> (q < 100 \<longrightarrow> q' = 100)
      \<and> (100 \<le> q \<longrightarrow> q - 50 < q' \<and> q' \<le> q + 50)
      \<and> (q \<le> 0 \<longrightarrow>
           (\<exists>msg. savePosition up written r fetch s
                     = (ValidationError msg, s\<lparr>alerts := alerts s @ [msg]\<rparr>)
                 \<and> savePosition_local up s
                     = Inr (ValidationError msg, s\<lparr>alerts := alerts s @ [msg]\<rparr>))))"
proof -
  have "\<exists>msg. savePosition up written r fetch s
                 = (ValidationError msg, s\<lparr>alerts := alerts s @ [msg]\<rparr>)
             \<and> savePosition_local up s
                 = Inr (ValidationError msg, s\<lparr>alerts := alerts s @ [msg]\<rparr>)"
    if "quantity (formData s) \<le> 0"
  proof -
    from that obtain msg where "validateForm (formData s) = Some msg"
      using validateForm_nonpositive by blast
    then show ?thesis by (simp add: savePosition_def savePosition_local_def)
  qed
  then show ?thesis
    unfolding validateQuantity_value Let_def
    using nearest_hundred [of "quantity (formData s)"] by auto
qed

theorem quantity_snapped_or_rejected_witness:
  "quantity (formData (validateQuantity
      (initialManager\<lparr>formData := (formData initialManager)\<lparr>quantity := 249\<rparr>\<rparr>))) = 200
   \<and> (\<exists>msg. savePosition toUpperCase_ascii True ListThrows (\<lambda>i c. QuoteThrows)
               (initialManager\<lparr>formData := \<lparr>ts_code = str ''600519.sh'', name = [],
                                              quantity = 0, cost_price = 100\<rparr>\<rparr>)
             = (ValidationError msg,
                initialManager\<lparr>formData := \<lparr>ts_code = str ''600519.sh'', name = [],
                                               quantity = 0, cost_price = 100\<rparr>,
                               alerts := [msg]\<rparr>)
           \<and> savePosition_local toUpperCase_ascii
               (initialManager\<lparr>formData := \<lparr>ts_code = str ''600519.sh'', name = [],
                                              quantity = 0, cost_price = 100\<rparr>\<rparr>)
             = Inr (ValidationError msg,
                    initialManager\<lparr>formData := \<lparr>ts_code = str ''600519.sh'', name = [],
                                                   quantity = 0, cost_price = 100\<rparr>,
                                   alerts := [msg]\<rparr>))"
  using quantity_snapped_or_rejected
          [where s = "initialManager\<lparr>formData := (formData initialManager)\<lparr>quantity := 249\<rparr>\<rparr>"
             and up = toUpperCase_ascii and written = True and r = ListThrows
             and fetch = "\<lambda>i c. QuoteThrows"]
        quantity_snapped_or_rejected
          [where s = "initialManager\<lparr>formData := \<lparr>ts_code = str ''600519.sh'', name = [],
                                                     quantity = 0, cost_price = 100\<rparr>\<rparr>"
             and up = toUpperCase_ascii and written = True and r = ListThrows
             and fetch = "\<lambda>i c. QuoteThrows"]
  by (simp add: initialManager_def Let_def validateQuantity_value)


section \<open>Properties of the quote refresh\<close>

lemma applyQuote_static:
  "ts_code (applyQuote r pos) = ts_code pos"
  "quantity (applyQuote r pos) = quantity pos"
  "cost_price (applyQuote r pos) = cost_price pos"
  "pid (applyQuote r pos) = pid pos"
  "weight (applyQuote r pos) = weight pos"
  by (induction r pos rule: applyQuote.induct; simp add: Let_def)+

lemma applyQuote_failed:
  "(\<And>q. r \<noteq> QuoteBody True (Some q)) \<Longrightarrow> applyQuote r pos = pos"
  by (induction r pos rule: applyQuote.induct) auto

lemma length_quoteLoop: "length (quoteLoop fetch k ps) = length ps"
  by (induction ps arbitrary: k) auto

lemma nth_quoteLoop:
  "i < length ps \<Longrightarrow>
     quoteLoop fetch k ps ! i = applyQuote (fetch (k + i) (ts_code (ps ! i))) (ps ! i)"
proof (induction ps arbitrary: k i)
  case Nil
  then show ?case by simp
next
  case (Cons p ps)
  show ?case
  proof (cases i)
    case 0
    then show ?thesis by simp
  next
    case (Suc j)
    with Cons.prems have "j < length ps" by simp
    from Cons.IH [OF this, of "Suc k"] Suc show ?thesis by simp
  qed
qed

lemma positions_refreshQuotes:
  "positions (refreshQuotes fetch s) =
     (if positions s = [] then []
      else map (weighted (total_capital s)) (quoteLoop fetch 0 (positions s)))"
  by (simp add: refreshQuotes_def updateWeights_def Let_def)

lemma nth_refreshQuotes:
  assumes "i < length (positions s)"
  shows "positions (refreshQuotes fetch s) ! i =
           weighted (total_capital s)
             (applyQuote (fetch i (ts_code (positions s ! i))) (positions s ! i))"
proof -
  from assms have "positions s \<noteq> []" by auto
  then show ?thesis
    using assms by (simp add: positions_refreshQuotes length_quoteLoop nth_quoteLoop)
qed

lemma alerts_refreshQuotes: "alerts (refreshQuotes fetch s) = alerts s"
  by (simp add: refreshQuotes_def updateWeights_def Let_def)

lemma weighted_fields:
  "ts_code (weighted t pos) = ts_code pos"
  "name (weighted t pos) = name pos"
  "quantity (weighted t pos) = quantity pos"
  "cost_price (weighted t pos) = cost_price pos"
  "pid (weighted t pos) = pid pos"
  "current_price (weighted t pos) = current_price pos"
  "profit (weighted t pos) = profit pos"
  "profit_pct (weighted t pos) = profit_pct pos"
  "weight (weighted t pos) =
     Some (if t > 0 then (of_int (quantity pos) * cost_price pos / t) * 100 else 0)"
  by (simp_all add: weighted_def Let_def)

text \<open>
  C1. Whatever the quote service replies, \<open>refreshQuotes\<close> runs over the whole ledger and
  keeps its length, and raises no alert. At every index \<open>i\<close>: if the reply is a success
  (\<open>ok\<close>, \<open>success\<close>, a \<open>data\<close> object), \<open>current_price\<close> becomes the fetched price and
  \<open>profit\<close> and \<open>profit_pct\<close> are computed from it (from \<open>cost_price\<close> when the fetched
  price is missing or zero); if the reply is anything else (an exception, a non-ok
  response, a non-success payload), \<open>current_price\<close>, \<open>profit\<close>, \<open>profit_pct\<close> and \<open>name\<close>
  stay as they were. The code, quantity and cost price never change, and the weight of
  every position is recomputed after the loop, from the values the loop left.
\<close>

theorem refreshQuotes_failure_isolation:
  assumes "i < length (positions s)"
  shows "(let p = positions s ! i; s' = refreshQuotes fetch s; p' = positions s' ! i in
      length (positions s') = length (positions s)
      \<and> alerts s' = alerts s
      \<and> (\<forall>q. fetch i (ts_code p) = QuoteBody True (Some q) \<longrightarrow>
            (let effective = (case price q of
                                Some x \<Rightarrow> if x \<noteq> 0 then x else cost_price p
                              | None \<Rightarrow> cost_price p)
             in current_price p' = price q
                \<and> profit p' = Some ((effective - cost_price p) * of_int (quantity p))
                \<and> profit_pct p' =
                    Some (if cost_price p > 0 then (effective / cost_price p - 1) * 100 else 0)))
      \<and> ((\<forall>q. fetch i (ts_code p) \<noteq> QuoteBody True (Some q)) \<longrightarrow>
            current_price p' = current_price p \<and> profit p' = profit p
            \<and> profit_pct p' = profit_pct p \<and> name p' = name p)
      \<and> ts_code p' = ts_code p \<and> quantity p' = quantity p \<and> cost_price p' = cost_price p
      \<and> weight p' =
          Some (if total_capital s > 0
                then (of_int (quantity p') * cost_price p' / total_capital s) * 100 else 0))"
proof -
  have len: "length (positions (refreshQuotes fetch s)) = length (positions s)"
    by (simp add: positions_refreshQuotes length_quoteLoop)
  note nth = nth_refreshQuotes [OF assms, of fetch]
  have ok: "current_price (applyQuote (QuoteBody True (Some q)) p) = price q
      \<and> profit (applyQuote (QuoteBody True (Some q)) p) =
          Some (((case price q of Some x \<Rightarrow> if x \<noteq> 0 then x else cost_price p
                              | None \<Rightarrow> cost_price p) - cost_price p) * of_int (quantity p))
      \<and> profit_pct (applyQuote (QuoteBody True (Some q)) p) =
          Some (if cost_price p > 0
                then ((case price q of Some x \<Rightarrow> if x \<noteq> 0 then x else cost_price p
                              | None \<Rightarrow> cost_price p) / cost_price p - 1) * 100 else 0)"
    for q p
    by (simp add: Let_def split: option.split)
  show ?thesis
    unfolding Let_def nth weighted_fields len alerts_refreshQuotes
    using ok applyQuote_failed [of "fetch i (ts_code (positions s ! i))" "positions s ! i"]
    by (auto simp: applyQuote_static)
qed

theorem refreshQuotes_failure_isolation_witness:
  "(let s = initialManager\<lparr>positions := heldPositions\<rparr>;
        s' = refreshQuotes firstQuoteFails s in
      length (positions s') = 2
      \<and> alerts s' = []
      \<and> current_price (positions s' ! 0) = Some 11
      \<and> profit (positions s' ! 0) = Some 100
      \<and> profit_pct (positions s' ! 0) = Some 10
      \<and> weight (positions s' ! 0) = Some 1
      \<and> current_price (positions s' ! 1) = Some 120
      \<and> profit (positions s' ! 1) = Some 4000
      \<and> profit_pct (positions s' ! 1) = Some 20
      \<and> weight (positions s' ! 1) = Some 20)"
  using refreshQuotes_failure_isolation
          [of 0 "initialManager\<lparr>positions := heldPositions\<rparr>" firstQuoteFails]
        refreshQuotes_failure_isolation
          [of 1 "initialManager\<lparr>positions := heldPositions\<rparr>" firstQuoteFails]
  by (simp add: Let_def initialManager_def heldPositions_def firstQuoteFails_def)

text \<open>
  C10. A successful quote reply for a position overwrites its \<open>name\<close> with the name in
  the reply when that name is present and non-empty, and keeps the stored name when the
  reply has no name or an empty one. So a refresh can change the static field \<open>name\<close>.
\<close>

theorem refreshQuotes_overwrites_name:
  assumes "i < length (positions s)"
    and "fetch i (ts_code (positions s ! i)) = QuoteBody True (Some q)"
  shows "(let p = positions s ! i; p' = positions (refreshQuotes fetch s) ! i in
      (\<forall>n. quote_name q = Some n \<and> n \<noteq> [] \<longrightarrow> name p' = n)
      \<and> (quote_name q = None \<or> quote_name q = Some [] \<longrightarrow> name p' = name p))"
  unfolding Let_def nth_refreshQuotes [OF assms(1)] weighted_fields assms(2)
  by (auto simp: Let_def)

theorem refreshQuotes_overwrites_name_witness:
  "(let s = initialManager\<lparr>positions := heldPositions\<rparr>;
        s' = refreshQuotes firstQuoteFails s in
      name (positions s ! 1) = str ''600519.SH''
      \<and> name (positions s' ! 1) = str ''Moutai''
      \<and> name (positions s' ! 1) \<noteq> name (positions s ! 1))"
  using refreshQuotes_overwrites_name
          [of 1 "initialManager\<lparr>positions := heldPositions\<rparr>" firstQuoteFails
              "\<lparr>price = Some 120, quote_name = Some (str ''Moutai'')\<rparr>"]
  by (simp add: Let_def initialManager_def heldPositions_def firstQuoteFails_def str_def)


section \<open>Properties of saving a position\<close>

lemma weighted_update:
  "weighted t pos =
     pos\<lparr>weight := Some (if t > 0 then (of_int (quantity pos) * cost_price pos / t) * 100 else 0)\<rparr>"
  by (simp add: weighted_def Let_def)

lemma positions_saved:
  "positions (updateWeights (resetForm (s\<lparr>positions := ps\<rparr>))) = map (weighted (total_capital s)) ps"
  by (simp add: updateWeights_def resetForm_def Let_def)

lemma savePosition_local_edit:
  assumes "validateForm (formData s) = None" and "editingIndex s = Some i"
    and "i < length (positions s)"
  shows "savePosition_local up s =
     Inr (Succeeded, updateWeights (resetForm (s\<lparr>positions := (positions s)[i := newPosition up (formData s)]\<rparr>)))"
  using assms by (simp add: savePosition_local_def Let_def)

lemma savePosition_local_add:
  assumes "validateForm (formData s) = None" and "editingIndex s = None"
  shows "savePosition_local up s =
     Inr (Succeeded, updateWeights (resetForm (s\<lparr>positions := positions s @ [newPosition up (formData s)]\<rparr>)))"
  using assms by (simp add: savePosition_local_def Let_def)

lemma savePosition_reload:
  assumes "validateForm (formData s) = None"
    and "editingIndex s = None \<or> (\<exists>i. editingIndex s = Some i \<and> i < length (positions s))"
  shows "\<exists>s'. savePosition up True (ListArray data) fetch s = (Succeeded, s')
           \<and> positions s' = positions (refreshQuotes fetch (s\<lparr>positions := data\<rparr>))"
  using assms
  by (auto simp: savePosition_def Let_def fetchPositions_def resetForm_def positions_refreshQuotes
           split: option.splits)

text \<open>
  C8, as stated, fails: saving an edit of the first position of the sample ledger drops
  its current price and profit, which an earlier refresh had set.
\<close>

theorem savePosition_local_edit_counterexample:
  "current_price (positions editingFirst ! 0) = Some 11
   \<and> profit (positions editingFirst ! 0) = Some 100
   \<and> savePosition_local toUpperCase_ascii editingFirst =
       Inr (Succeeded,
            initialManager\<lparr>positions :=
              [\<lparr>ts_code = str ''000001.SZ'', name = str ''PAB'', quantity = 200, cost_price = 10,
                pid = None, current_price = None, profit = None, profit_pct = None,
                weight = Some 2\<rparr>,
               \<lparr>ts_code = str ''600519.SH'', name = str ''600519.SH'', quantity = 200,
                cost_price = 100, pid = None, current_price = None, profit = None,
                profit_pct = None, weight = Some 20\<rparr>]\<rparr>)"
  by (simp add: editingFirst_def initialManager_def heldPositions_def savePosition_local_def
        validateForm_def newPosition_def toUpperCase_ascii_def str_def resetForm_def
        updateWeights_def weighted_def Let_def)

text \<open>
  C8, amended. For a form that passes validation, in the variant that keeps the ledger in
  the browser: in edit mode the position at the edited index is replaced by a fresh one
  built from the form (\<open>ts_code\<close> upper-cased, \<open>name\<close> or else the code as typed,
  \<open>quantity\<close>, \<open>cost_price\<close>), its \<open>current_price\<close>, \<open>profit\<close> and \<open>profit_pct\<close> are absent
  until the next refresh and its \<open>weight\<close> is recomputed at once; every other position
  keeps all its fields but \<open>weight\<close>, which is recomputed. When not editing, the new
  position is appended after the existing ones, which again change in \<open>weight\<close> only.
  In the variant that keeps the ledger on the server, after a save the ledger is the list
  the server returns, with its quotes refreshed.
\<close>

theorem savePosition_frame:
  assumes "validateForm (formData s) = None"
  shows "(let f = formData s;
              w = (\<lambda>pos. Some (if total_capital s > 0
                                then (of_int (quantity pos) * cost_price pos / total_capital s) * 100
                                else 0)) in
     (\<forall>i. editingIndex s = Some i \<and> i < length (positions s) \<longrightarrow>
        (\<exists>s'. savePosition_local up s = Inr (Succeeded, s')
           \<and> length (positions s') = length (positions s)
           \<and> (let p' = positions s' ! i in
                ts_code p' = up (ts_code f)
                \<and> name p' = (if name f \<noteq> [] then name f else ts_code f)
                \<and> quantity p' = quantity f \<and> cost_price p' = cost_price f
                \<and> current_price p' = None \<and> profit p' = None \<and> profit_pct p' = None
                \<and> weight p' = w p')
           \<and> (\<forall>j < length (positions s). j \<noteq> i \<longrightarrow>
                 positions s' ! j = (positions s ! j)\<lparr>weight := w (positions s ! j)\<rparr>)))
     \<and> (editingIndex s = None \<longrightarrow>
        (\<exists>s'. savePosition_local up s = Inr (Succeeded, s')
           \<and> positions s' =
               map (\<lambda>pos. pos\<lparr>weight := w pos\<rparr>) (positions s)
               @ [(newPosition up f)\<lparr>weight := w (newPosition up f)\<rparr>]))
     \<and> (editingIndex s = None \<or> (\<exists>i. editingIndex s = Some i \<and> i < length (positions s)) \<longrightarrow>
        (\<forall>data fetch. \<exists>s'. savePosition up True (ListArray data) fetch s = (Succeeded, s')
           \<and> positions s' = positions (refreshQuotes fetch (s\<lparr>positions := data\<rparr>)))))"
proof -
  have edit: "\<exists>s'. savePosition_local up s = Inr (Succeeded, s')
           \<and> length (positions s') = length (positions s)
           \<and> (let p' = positions s' ! i in
                ts_code p' = up (ts_code (formData s))
                \<and> name p' = (if name (formData s) \<noteq> [] then name (formData s) else ts_code (formData s))
                \<and> quantity p' = quantity (formData s) \<and> cost_price p' = cost_price (formData s)
                \<and> current_price p' = None \<and> profit p' = None \<and> profit_pct p' = None
                \<and> weight p' = Some (if total_capital s > 0
                                then (of_int (quantity p') * cost_price p' / total_capital s) * 100
                                else 0))
           \<and> (\<forall>j < length (positions s). j \<noteq> i \<longrightarrow>
                 positions s' ! j = (positions s ! j)\<lparr>weight := Some (if total_capital s > 0
                                then (of_int (quantity (positions s ! j)) * cost_price (positions s ! j) / total_capital s) * 100
                                else 0)\<rparr>)"
    if "editingIndex s = Some i" and "i < length (positions s)" for i
    unfolding savePosition_local_edit [OF assms that]
    using that(2)
    by (simp add: positions_saved weighted_update newPosition_def nth_list_update Let_def)
  have add: "\<exists>s'. savePosition_local up s = Inr (Succeeded, s')
           \<and> positions s' =
               map (\<lambda>pos. pos\<lparr>weight := Some (if total_capital s > 0
                                then (of_int (quantity pos) * cost_price pos / total_capital s) * 100
                                else 0)\<rparr>) (positions s)
               @ [(newPosition up (formData s))\<lparr>weight := Some (if total_capital s > 0
                                then (of_int (quantity (newPosition up (formData s))) * cost_price (newPosition up (formData s)) / total_capital s) * 100
                                else 0)\<rparr>]"
    if "editingIndex s = None"
    unfolding savePosition_local_add [OF assms that]
    by (simp add: positions_saved weighted_update)
  show ?thesis
    using edit add savePosition_reload [OF assms, of up]
    unfolding Let_def by blast
qed

theorem savePosition_frame_witness:
  "(\<exists>s'. savePosition_local toUpperCase_ascii editingFirst = Inr (Succeeded, s')
        \<and> ts_code (positions s' ! 0) = str ''000001.SZ''
        \<and> quantity (positions s' ! 0) = 200
        \<and> map current_price (positions s') = [None, None]
        \<and> map profit (positions s') = [None, None]
        \<and> map weight (positions s') = [Some 2, Some 20])
   \<and> (\<exists>s'. savePosition_local toUpperCase_ascii (editingFirst\<lparr>editingIndex := None\<rparr>)
               = Inr (Succeeded, s')
        \<and> map ts_code (positions s')
            = [str ''000001.SZ'', str ''600519.SH'', str ''000001.SZ'']
        \<and> map current_price (positions s') = [Some 11, None, None]
        \<and> map weight (positions s') = [Some 1, Some 20, Some 2])
   \<and> (\<exists>s'. savePosition toUpperCase_ascii True (ListArray []) firstQuoteFails editingFirst
               = (Succeeded, s')
        \<and> positions s' = [])"
  using savePosition_frame [of editingFirst toUpperCase_ascii]
        savePosition_frame [of "editingFirst\<lparr>editingIndex := None\<rparr>" toUpperCase_ascii]
  by (simp add: editingFirst_def initialManager_def heldPositions_def savePosition_local_def
        savePosition_def fetchPositions_def refreshQuotes_def
        validateForm_def newPosition_def toUpperCase_ascii_def str_def resetForm_def
        updateWeights_def weighted_def Let_def)


section \<open>Properties of the analysis flow\<close>

lemma analyzeSectors_halves:
  "analyzeSectors r s = analyzeSectors_settle r (analyzeSectors_begin s)"
  by (cases r)
     (simp_all add: analyzeSectors_def analyzeSectors_settle_def analyzeSectors_begin_def Let_def)

lemma recommendStocks_halves:
  "recommendStocks r s =
     (if \<not> hasSelectedSectors s
      then (ValidationError msg_selectAtLeastOne, s\<lparr>errorMessage := Some msg_selectAtLeastOne\<rparr>)
      else recommendStocks_settle r (recommendStocks_begin s))"
  by (cases r)
     (simp_all add: recommendStocks_def recommendStocks_settle_def recommendStocks_begin_def
        Let_def)

lemma flowInv_initial: "flowInv (initialFlow rp, [])"
  by (simp add: flowInv_def initialFlow_def sectorNames_def)

lemma at_most_one:
  assumes "length p \<le> 1" and "c \<in> set p"
  shows "p = [c]"
  using assms by (cases p) auto

lemma flowInv_fire:
  assumes "flowInv c" and "fire e c = Some c'"
  shows "flowInv c'"
proof -
  obtain s p where c: "c = (s, p)" by (cases c)
  from assms(1) c have inv:
    "set (selectedSectors s) \<subseteq> sectorNames s"
    "currentStep s = 1 \<Longrightarrow> selectedSectors s = []"
    "p \<noteq> [] \<Longrightarrow> isLoading s"
    "ScanCall \<in> set p \<Longrightarrow> currentStep s = 1"
    "length p \<le> 1"
    by (simp_all add: flowInv_def)
  show ?thesis
  proof (cases e)
    case (ClickRisk v)
    with assms(2) c inv show ?thesis
      by (auto simp: flowInv_def setRiskPreference_def sectorNames_def split: if_splits)
  next
    case ClickAnalyze
    with assms(2) c have g: "currentStep s = 1" "\<not> isLoading s"
      and c': "c' = (analyzeSectors_begin s, p @ [ScanCall])"
      by (auto split: if_splits)
    from g(2) inv(3) have "p = []" by blast
    with c' g inv(1,2) show ?thesis
      by (simp add: flowInv_def analyzeSectors_begin_def Let_def sectorNames_def)
  next
    case (ClickSector i)
    with assms(2) c obtain a where a: "sectorAnalysis s = Some a" "currentStep s = 2"
        "i < length (sectors a)" "c' = (toggleSector (sector_name (sectors a ! i)) s, p)"
      by (auto split: option.splits if_splits)
    then have "sector_name (sectors a ! i) \<in> sectorNames s"
      by (simp add: sectorNames_def)
    with a inv show ?thesis
      by (auto simp: flowInv_def toggleSector_def sectorNames_def)
  next
    case ClickBack
    with assms(2) c have g: "showsStep2 s \<or> showsStep3 s" and c': "c' = (goBack s, p)"
      by (auto split: if_splits)
    from g inv c' show ?thesis
      by (auto simp: flowInv_def goBack_def sectorNames_def showsStep2_def showsStep3_def)
  next
    case ClickRecommend
    with assms(2) c have g: "showsStep2 s" "\<not> isLoading s"
      and c': "c' = (recommendStocks_begin s, p @ [RecommendCall])"
      by (auto split: if_splits)
    from g(2) inv(3) have "p = []" by blast
    with c' g inv(1,2) show ?thesis
      by (simp add: flowInv_def recommendStocks_begin_def Let_def sectorNames_def
            showsStep2_def)
  next
    case ClickReset
    with assms(2) c have c': "c' = (resetFlow s, p)" by (auto split: if_splits)
    with inv show ?thesis
      by (auto simp: flowInv_def resetFlow_def sectorNames_def)
  next
    case ClickCloseError
    with assms(2) c inv show ?thesis
      by (auto simp: flowInv_def sectorNames_def split: option.splits if_splits)
  next
    case (ScanSettles r)
    with assms(2) c have g: "ScanCall \<in> set p"
      and c': "c' = (snd (analyzeSectors_settle r s), remove1 ScanCall p)"
      by (auto split: if_splits)
    from at_most_one [OF inv(5) g] have p: "p = [ScanCall]" .
    from inv(4) g have step: "currentStep s = 1" by blast
    with inv(2) have sel: "selectedSectors s = []" by blast
    from c' p step sel show ?thesis
      by (cases r)
         (auto simp: flowInv_def analyzeSectors_settle_def caught_def Let_def sectorNames_def)
  next
    case (RecommendSettles r)
    with assms(2) c have g: "RecommendCall \<in> set p"
      and c': "c' = (snd (recommendStocks_settle r s), remove1 RecommendCall p)"
      by (auto split: if_splits)
    from at_most_one [OF inv(5) g] have p: "p = [RecommendCall]" .
    from c' p inv(1,2) show ?thesis
      by (cases r)
         (auto simp: flowInv_def recommendStocks_settle_def caught_def Let_def sectorNames_def)
  qed
qed

lemma flowInv_run:
  "flowInv c \<Longrightarrow> run es c = Some c' \<Longrightarrow> flowInv c'"
proof (induction es arbitrary: c)
  case Nil
  then show ?case by simp
next
  case (Cons e es)
  from Cons.prems(2) obtain d where d: "fire e c = Some d" "run es d = Some c'"
    by (auto split: option.splits)
  from flowInv_fire [OF Cons.prems(1) d(1)] Cons.IH d(2) show ?case by blast
qed

lemma flowInv_reachable: "run es (initialFlow rp, []) = Some c \<Longrightarrow> flowInv c"
  using flowInv_run [OF flowInv_initial] by blast




text \<open>
  C3. With an empty selection \<open>recommendStocks\<close> ends with a \<open>ValidationError\<close>, hands no
  request to \<open>fetch()\<close>, and changes nothing but the error message: step, analysis,
  selection and recommendations stay. With a non-empty selection it issues exactly one
  request, the recommend request with the selected names and the risk preference,
  whatever the reply.
\<close>

theorem recommendStocks_empty_selection:
  "(selectedSectors s = [] \<longrightarrow>
      recommendStocks r s =
        (ValidationError msg_selectAtLeastOne, s\<lparr>errorMessage := Some msg_selectAtLeastOne\<rparr>)
      \<and> sent (snd (recommendStocks r s)) = sent s
      \<and> currentStep (snd (recommendStocks r s)) = currentStep s
      \<and> sectorAnalysis (snd (recommendStocks r s)) = sectorAnalysis s
      \<and> selectedSectors (snd (recommendStocks r s)) = selectedSectors s
      \<and> stockRecommendations (snd (recommendStocks r s)) = stockRecommendations s)
   \<and> (selectedSectors s \<noteq> [] \<longrightarrow>
      sent (snd (recommendStocks r s)) =
        sent s @ [PostStocks (selectedSectors s) (riskPreference s)])"
  by (cases r) (auto simp: recommendStocks_def hasSelectedSectors_def Let_def caught_def)

theorem recommendStocks_empty_selection_witness:
  "recommendStocks (Ok sampleRecommendations) scanned =
     (ValidationError msg_selectAtLeastOne, scanned\<lparr>errorMessage := Some msg_selectAtLeastOne\<rparr>)
   \<and> sent (snd (recommendStocks (Ok sampleRecommendations) scanned)) = [GetSectors]
   \<and> sent (snd (recommendStocks (Ok sampleRecommendations)
                  (toggleSector (str ''Semiconductors'') scanned)))
       = [GetSectors, PostStocks [str ''Semiconductors''] balanced]"
  using recommendStocks_empty_selection [of scanned "Ok sampleRecommendations"]
        recommendStocks_empty_selection
          [of "toggleSector (str ''Semiconductors'') scanned" "Ok sampleRecommendations"]
  by (simp add: scanned_def analyzeSectors_def initialFlow_def toggleSector_def Let_def)

text \<open>
  C4. When the reply to a scan, or to a recommend request made with a non-empty
  selection, is not a success, the handler ends with a \<open>RemoteError\<close> and the step, the
  analysis, the selection, the recommendations and the risk preference are as before the
  call; the error message is set and the busy flag is off, so the call can be repeated.
\<close>

theorem failed_request_keeps_state:
  "((\<forall>data. r1 \<noteq> Ok data) \<longrightarrow>
      (\<exists>m s'. analyzeSectors r1 s = (RemoteError m, s')
         \<and> currentStep s' = currentStep s \<and> sectorAnalysis s' = sectorAnalysis s
         \<and> selectedSectors s' = selectedSectors s
         \<and> stockRecommendations s' = stockRecommendations s
         \<and> riskPreference s' = riskPreference s
         \<and> errorMessage s' = Some m \<and> isLoading s' = False))
   \<and> ((\<forall>data. r2 \<noteq> Ok data) \<and> selectedSectors s \<noteq> [] \<longrightarrow>
      (\<exists>m s'. recommendStocks r2 s = (RemoteError m, s')
         \<and> currentStep s' = currentStep s \<and> sectorAnalysis s' = sectorAnalysis s
         \<and> selectedSectors s' = selectedSectors s
         \<and> stockRecommendations s' = stockRecommendations s
         \<and> riskPreference s' = riskPreference s
         \<and> errorMessage s' = Some m \<and> isLoading s' = False))"
  by (cases r1; cases r2)
     (auto simp: analyzeSectors_def recommendStocks_def hasSelectedSectors_def Let_def caught_def)

theorem failed_request_keeps_state_witness:
  "(\<exists>m s'. analyzeSectors (NotOk None) (initialFlow balanced) = (RemoteError m, s')
       \<and> currentStep s' = 1 \<and> sectorAnalysis s' = None \<and> selectedSectors s' = []
       \<and> stockRecommendations s' = None)
   \<and> (\<exists>m s'. recommendStocks (Throws []) (toggleSector (str ''Semiconductors'') scanned)
                 = (RemoteError m, s')
       \<and> currentStep s' = 2 \<and> sectorAnalysis s' = Some sampleAnalysis
       \<and> selectedSectors s' = [str ''Semiconductors'']
       \<and> stockRecommendations s' = None)"
  using failed_request_keeps_state
          [of "NotOk None" "initialFlow balanced" "Throws []"]
        failed_request_keeps_state
          [of "Throws []" "toggleSector (str ''Semiconductors'') scanned" "Throws []"]
  by (simp add: scanned_def analyzeSectors_def recommendStocks_def hasSelectedSectors_def
        caught_def initialFlow_def toggleSector_def Let_def)

text \<open>
  C6, as stated, fails: after the sample scan, whose only sector is Semiconductors,
  \<open>toggleSector\<close> on the name Banks selects that name.
\<close>

theorem toggleSector_foreign_name_counterexample:
  "str ''Banks'' \<notin> sectorNames scanned
   \<and> selectedSectors scanned = []
   \<and> selectedSectors (toggleSector (str ''Banks'') scanned) = [str ''Banks'']"
  by (simp add: scanned_def analyzeSectors_def initialFlow_def toggleSector_def Let_def
        sectorNames_def sampleAnalysis_def str_def)

text \<open>
  C6, amended. In every state the user can reach through the template, the states with
  a request in flight and those a late reply leads to included, the selection is a subset
  of the sector names of the current analysis, and so is empty when there is none: a
  toggle is on offer only for the names on the cards of the current analysis, and every
  way back to step 1 clears the selection. \<open>toggleSector\<close> itself makes no such check:
  for every name, in the analysis or not, it flips the membership of that name and of no
  other.
\<close>

theorem selection_within_analysis:
  "(\<forall>es rp s p. run es (initialFlow rp, []) = Some (s, p)
        \<longrightarrow> set (selectedSectors s) \<subseteq> sectorNames s)
   \<and> (nm \<in> set (selectedSectors (toggleSector nm s)) \<longleftrightarrow> nm \<notin> set (selectedSectors s))
   \<and> (\<forall>other. other \<noteq> nm \<longrightarrow>
         (other \<in> set (selectedSectors (toggleSector nm s)) \<longleftrightarrow> other \<in> set (selectedSectors s)))"
proof -
  have "set (selectedSectors s) \<subseteq> sectorNames s"
    if "run es (initialFlow rp, []) = Some (s, p)" for es rp s p
    using flowInv_reachable [OF that] by (simp add: flowInv_def)
  moreover have "nm \<in> set (selectedSectors (toggleSector nm s)) \<longleftrightarrow> nm \<notin> set (selectedSectors s)"
    by (simp add: toggleSector_def)
  moreover have "other \<in> set (selectedSectors (toggleSector nm s)) \<longleftrightarrow> other \<in> set (selectedSectors s)"
    if "other \<noteq> nm" for other
    using that by (simp add: toggleSector_def)
  ultimately show ?thesis by blast
qed

theorem selection_within_analysis_witness:
  "run [ClickAnalyze, ScanSettles (Ok sampleAnalysis), ClickSector 0, ClickRecommend]
       (initialFlow balanced, [])
     = Some (recommendStocks_begin (toggleSector (str ''Semiconductors'') scanned),
             [RecommendCall])
   \<and> isLoading (recommendStocks_begin (toggleSector (str ''Semiconductors'') scanned))
   \<and> selectedSectors (recommendStocks_begin (toggleSector (str ''Semiconductors'') scanned))
       = [str ''Semiconductors'']
   \<and> set (selectedSectors (recommendStocks_begin (toggleSector (str ''Semiconductors'') scanned)))
       \<subseteq> sectorNames (recommendStocks_begin (toggleSector (str ''Semiconductors'') scanned))
   \<and> (\<exists>s. run [ClickAnalyze, ScanSettles (Ok sampleAnalysis), ClickSector 0, ClickRecommend,
                 ClickBack, RecommendSettles (Ok sampleRecommendations)]
                (initialFlow balanced, []) = Some (s, [])
          \<and> currentStep s = 3 \<and> sectorAnalysis s = None
          \<and> set (selectedSectors s) \<subseteq> sectorNames s)
   \<and> str ''Banks'' \<in> set (selectedSectors (toggleSector (str ''Banks'') scanned))"
proof -
  have reach: "run [ClickAnalyze, ScanSettles (Ok sampleAnalysis), ClickSector 0, ClickRecommend]
                 (initialFlow balanced, [])
               = Some (recommendStocks_begin (toggleSector (str ''Semiconductors'') scanned),
                       [RecommendCall])"
    by (simp add: scanned_def analyzeSectors_def analyzeSectors_begin_def
          analyzeSectors_settle_def recommendStocks_begin_def initialFlow_def
          sampleAnalysis_def toggleSector_def showsStep2_def hasSelectedSectors_def Let_def)
  have busy: "isLoading (recommendStocks_begin (toggleSector (str ''Semiconductors'') scanned))"
    by (simp add: recommendStocks_begin_def Let_def)
  have sel: "selectedSectors (recommendStocks_begin (toggleSector (str ''Semiconductors'') scanned))
               = [str ''Semiconductors'']"
    by (simp add: scanned_def analyzeSectors_def initialFlow_def toggleSector_def
          recommendStocks_begin_def Let_def)
  have late: "\<exists>s. run [ClickAnalyze, ScanSettles (Ok sampleAnalysis), ClickSector 0,
                       ClickRecommend, ClickBack, RecommendSettles (Ok sampleRecommendations)]
                (initialFlow balanced, []) = Some (s, [])
          \<and> currentStep s = 3 \<and> sectorAnalysis s = None"
    by (simp add: analyzeSectors_begin_def analyzeSectors_settle_def recommendStocks_begin_def
          recommendStocks_settle_def initialFlow_def sampleAnalysis_def toggleSector_def
          goBack_def showsStep2_def hasSelectedSectors_def Let_def)
  have empty: "str ''Banks'' \<notin> set (selectedSectors scanned)"
    by (simp add: scanned_def analyzeSectors_def initialFlow_def Let_def)
  from selection_within_analysis [of "str ''Banks''" scanned] reach busy sel late empty
  show ?thesis by metis
qed


section \<open>Properties of the error classifier\<close>

lemma startsWith_iff: "startsWith s pat \<longleftrightarrow> (\<exists>post. s = pat @ post)"
  by (induction s pat rule: startsWith.induct) auto

lemma includes_str_iff: "includes_str s pat \<longleftrightarrow> (\<exists>pre post. s = pre @ pat @ post)"
proof (induction s)
  case Nil
  then show ?case by simp
next
  case (Cons x xs)
  have "(\<exists>pre post. x # xs = pre @ pat @ post)
          \<longleftrightarrow> (\<exists>post. x # xs = pat @ post) \<or> (\<exists>pre post. xs = pre @ pat @ post)"
  proof
    assume "\<exists>pre post. x # xs = pre @ pat @ post"
    then obtain pre post where eq: "x # xs = pre @ pat @ post" by blast
    show "(\<exists>post. x # xs = pat @ post) \<or> (\<exists>pre post. xs = pre @ pat @ post)"
    proof (cases pre)
      case Nil
      with eq show ?thesis by auto
    next
      case (Cons y ys)
      with eq have "xs = ys @ pat @ post" by simp
      then show ?thesis by blast
    qed
  next
    assume "(\<exists>post. x # xs = pat @ post) \<or> (\<exists>pre post. xs = pre @ pat @ post)"
    then show "\<exists>pre post. x # xs = pre @ pat @ post"
    proof
      assume "\<exists>post. x # xs = pat @ post"
      then obtain post where "x # xs = [] @ pat @ post" by auto
      then show ?thesis by blast
    next
      assume "\<exists>pre post. xs = pre @ pat @ post"
      then obtain pre post where "x # xs = (x # pre) @ pat @ post" by auto
      then show ?thesis by blast
    qed
  qed
  with Cons.IH show ?case by (simp add: startsWith_iff)
qed

text \<open>
  C7. For every payload whose \<open>detail\<close> is a string containing "429", "quota" or
  "exceeded", \<open>parseApiError\<close> returns the quota descriptor: the quota title and message
  and a non-empty details text. The result does not depend on the default message, and
  it is the same when the detail also carries a data-provider marker or is longer than
  the generic rule's bound, since the quota test comes first.
\<close>

theorem parseApiError_quota_first:
  assumes "getProperty data (str ''detail'') = JStr detail"
    and "\<exists>pre post. detail = pre @ str ''429'' @ post
                   \<or> detail = pre @ str ''quota'' @ post
                   \<or> detail = pre @ str ''exceeded'' @ post"
  shows "parseApiError data defaultMessage =
           Inr \<lparr>title = quota_title, message = quota_message, details = Some quota_details\<rparr>
         \<and> quota_details \<noteq> []"
proof -
  from assms(2) have marker:
    "includes_str detail (str ''429'') \<or> includes_str detail (str ''quota'')
     \<or> includes_str detail (str ''exceeded'')"
    unfolding includes_str_iff by blast
  from assms(2) have "detail \<noteq> []" by (auto simp: str_def)
  with assms(1) have "detailText data = Some detail" by (simp add: detailText_def)
  with marker show ?thesis by (simp add: parseApiError_def quota_details_def)
qed

theorem parseApiError_quota_first_witness:
  "parseApiError quotaReply (str ''scan failed'') =
     Inr \<lparr>title = quota_title, message = quota_message, details = Some quota_details\<rparr>
   \<and> includes_str (str ''Error 429 from tushare.pro'') (str ''tushare.pro'')
   \<and> quota_details \<noteq> []"
proof -
  have d: "getProperty quotaReply (str ''detail'') = JStr (str ''Error 429 from tushare.pro'')"
    by (simp add: quotaReply_def getProperty_def)
  have "str ''Error 429 from tushare.pro'' = str ''Error '' @ str ''429'' @ str '' from tushare.pro''"
    by (simp add: str_def)
  then have m: "\<exists>pre post. str ''Error 429 from tushare.pro'' = pre @ str ''429'' @ post
                   \<or> str ''Error 429 from tushare.pro'' = pre @ str ''quota'' @ post
                   \<or> str ''Error 429 from tushare.pro'' = pre @ str ''exceeded'' @ post"
    by blast
  have p: "includes_str (str ''Error 429 from tushare.pro'') (str ''tushare.pro'')"
    by (simp add: str_def)
  from parseApiError_quota_first [OF d m, of "str ''scan failed''"] p show ?thesis by simp
qed

end
